theory Spec2Isabelle
  imports Main
begin

section \<open>JavaScript values, errors and effects\<close>

text \<open>
  The middleware and controllers work on dynamically typed values: a decoded token payload,
  \<open>req.user\<close>, a request body. They are modelled by \<open>jsval\<close>; an object is an association
  list from property names to values (the first binding of a name is its value). Numbers
  are integers: every number the code handles here is an id, a count or a limit.
\<close>

datatype jsval =
    JUndefined
  | JNull
  | JBool bool
  | JNum int
  | JStr string
  | JDate int
  | JArr "jsval list"
  | JObj "(string \<times> jsval) list"

text \<open>A thrown \<open>Error\<close>: its \<open>message\<close> and its optional \<open>status\<close> property.\<close>

datatype js_error = JsError (message: string) (status: "nat option")

text \<open>Truthiness, as \<open>!x\<close> and \<open>x || y\<close> test it.\<close>

fun truthy :: "jsval \<Rightarrow> bool" where
  "truthy JUndefined = False"
| "truthy JNull = False"
| "truthy (JBool b) = b"
| "truthy (JNum n) = (n \<noteq> 0)"
| "truthy (JStr s) = (s \<noteq> [])"
| "truthy (JDate _) = True"
| "truthy (JArr _) = True"
| "truthy (JObj _) = True"

text \<open>
  Property read \<open>v.k\<close>: a \<open>TypeError\<close> on \<open>undefined\<close> and \<open>null\<close>, the bound value on an
  object, \<open>undefined\<close> for a name that is not bound. None of the names read in this
  program (\<open>id\<close>, \<open>email\<close>, \<open>role\<close>, \<open>token\<close>) is a built-in property of a primitive.
\<close>

fun get_prop :: "jsval \<Rightarrow> string \<Rightarrow> js_error + jsval" where
  "get_prop JUndefined k = Inl (JsError (''Cannot read properties of undefined (reading '' @ k @ '')'') None)"
| "get_prop JNull k = Inl (JsError (''Cannot read properties of null (reading '' @ k @ '')'') None)"
| "get_prop (JObj kvs) k = Inr (case map_of kvs k of None \<Rightarrow> JUndefined | Some v \<Rightarrow> v)"
| "get_prop _ k = Inr JUndefined"

text \<open>Optional chaining \<open>v?.k\<close>: \<open>undefined\<close> on \<open>undefined\<close> and \<open>null\<close>, never throws.\<close>

definition opt_prop :: "jsval \<Rightarrow> string \<Rightarrow> jsval" where
  "opt_prop v k = (case get_prop v k of Inl _ \<Rightarrow> JUndefined | Inr x \<Rightarrow> x)"

text \<open>\<open>a || b\<close> on values.\<close>

definition js_or :: "jsval \<Rightarrow> jsval \<Rightarrow> jsval" where
  "js_or a b = (if truthy a then a else b)"

text \<open>
  What a middleware or a controller does to the outside world is recorded as a trace of
  events, in the order the code performs them: a line to the logger, a line to the
  console, a call of the decision provider, a database statement, a response
  (\<open>res.status(s).json(b)\<close>; \<open>res.json(b)\<close> alone sends status 200), and the hand-over
  to the next stage (\<open>next()\<close>, or \<open>next(e)\<close> with an error). The logger, the response and
  \<open>next\<close> do not throw (Express catches what a later stage throws).

  A logger line holds the level, the message as the source writes it (a template keeps
  its \<open>${...}\<close> places), the values that go with it (the values of the places in order,
  then a metadata object if one is passed) and the error passed along, if any.
\<close>

datatype level = Info | Warn | Error

datatype db_op = Select | Update | Delete

record sw_options =
  node :: string
  interval :: string
  max' :: "int option"
  nam :: string

datatype event =
    Log level string "jsval list" "js_error option"
  | ConsoleError string js_error
  | Protect sw_options
  | Db db_op
  | Respond nat jsval
  | Next
  | NextErr js_error

section \<open>The request\<close>

text \<open>
  The fields of the Express request the code reads: \<open>req.cookies\<close> (absent when no cookie
  parser ran), the header accessor \<open>req.get\<close>, \<open>req.ip\<close>, \<open>req.path\<close>, the route
  parameters, the parsed body, and \<open>req.user\<close>, which the identity resolver writes.
\<close>

record request =
  cookies :: jsval
  get :: "string \<Rightarrow> string option"
  ip :: string
  path :: string
  params :: "(string \<times> string) list"
  body :: jsval
  user :: jsval

definition get_header :: "request \<Rightarrow> string \<Rightarrow> jsval" where
  "get_header req h = (case get req h of None \<Rightarrow> JUndefined | Some s \<Rightarrow> JStr s)"

section \<open>Identity resolver: \<open>attachUserFromToken\<close>\<close>

text \<open>\<open>s.startsWith(p)\<close> and \<open>s.substring(n)\<close> on strings.\<close>

definition startsWith :: "string \<Rightarrow> string \<Rightarrow> bool" where
  "startsWith s p = (take (length p) s = p)"

definition substring :: "string \<Rightarrow> nat \<Rightarrow> string" where
  "substring s n = drop n s"

text \<open>
  Steps 1 and 2 of the resolver: the \<open>token\<close> cookie if it is truthy, else the rest of an
  \<open>Authorization\<close> header that starts with \<open>Bearer \<close>. The result is the value of the
  local variable \<open>token\<close> when the code tests \<open>!token\<close> the second time.
\<close>

definition find_token :: "request \<Rightarrow> jsval" where
  "find_token req =
     (let token = opt_prop (cookies req) ''token'' in
      if \<not> truthy token then
        (let authHeader = (case get req ''Authorization'' of None \<Rightarrow> '''' | Some h \<Rightarrow> h) in
         if startsWith authHeader ''Bearer '' then JStr (substring authHeader 7) else token)
      else token)"

text \<open>
  The \<open>catch\<close> block of the resolver: one warning with the error message, the IP and the
  path, \<open>req.user = undefined\<close>, \<open>next()\<close>.
\<close>

definition attach_catch :: "request \<Rightarrow> js_error \<Rightarrow> request \<times> event list" where
  "attach_catch req e =
     (req\<lparr>user := JUndefined\<rparr>,
      [Log Warn ''Invalid or expired JWT token''
         [JObj [(''error'', JStr (message e)), (''ip'', JStr (ip req)), (''path'', JStr (path req))]]
         None,
       Next])"

text \<open>
  \<open>jwttoken.verify\<close> lives in a module outside the files at hand; it is a parameter:
  it returns the decoded payload or throws.
\<close>

text \<open>Step 4: the object built from \<open>payload.id\<close>, \<open>payload.email\<close> and \<open>payload.role\<close>.\<close>

definition user_of_payload :: "jsval \<Rightarrow> js_error + jsval" where
  "user_of_payload payload =
     (case get_prop payload ''id'' of
        Inl e \<Rightarrow> Inl e
      | Inr i \<Rightarrow>
     (case get_prop payload ''email'' of
        Inl e \<Rightarrow> Inl e
      | Inr m \<Rightarrow>
     (case get_prop payload ''role'' of
        Inl e \<Rightarrow> Inl e
      | Inr r \<Rightarrow> Inr (JObj [(''id'', i), (''email'', m), (''role'', r)]))))"

definition attachUserFromToken ::
  "(jsval \<Rightarrow> js_error + jsval) \<Rightarrow> request \<Rightarrow> request \<times> event list" where
  "attachUserFromToken verify req =
     (let token = find_token req in
      if \<not> truthy token then (req\<lparr>user := JUndefined\<rparr>, [Next])
      else
        (case verify token of
           Inl e \<Rightarrow> attach_catch req e
         | Inr payload \<Rightarrow>
             (case user_of_payload payload of
                Inl e \<Rightarrow> attach_catch req e
              | Inr u \<Rightarrow> (req\<lparr>user := u\<rparr>, [Next]))))"

text \<open>The route guard \<open>requireAuth\<close>.\<close>

definition requireAuth :: "request \<Rightarrow> event list" where
  "requireAuth req =
     (if \<not> truthy (user req)
      then [Respond 401 (JObj [(''error'', JStr ''Unauthorized''),
                               (''message'', JStr ''Authentication required'')])]
      else [Next])"

section \<open>Admission controller: \<open>securityMiddleware\<close>\<close>

text \<open>
  Modelled from the spec: the decision object of the decision provider. The provider is
  a third-party library (\<open>@arcjet/node\<close>) and its types are not among the source files;
  the specification gives the decision as an outcome (\<open>isDenied()\<close> here) and a reason
  with the three predicates \<open>isBot\<close>, \<open>isShield\<close> and \<open>isRateLimit\<close>.
\<close>

record reasonFlags =
  isBot :: bool
  isShield :: bool
  isRateLimit :: bool

record decision =
  isDenied :: bool
  reason :: reasonFlags

text \<open>
  Modelled from the spec: a method call \<open>decision.reason.m()\<close>. The reason object has the
  three predicates above and no other that the code names; a call of a name the object
  does not have is a call of \<open>undefined\<close>, which throws a \<open>TypeError\<close>.
\<close>

definition call_reason :: "reasonFlags \<Rightarrow> string \<Rightarrow> js_error + bool" where
  "call_reason r m =
     (if m = ''isBot'' then Inr (isBot r)
      else if m = ''isShield'' then Inr (isShield r)
      else if m = ''isRateLimit'' then Inr (isRateLimit r)
      else Inl (JsError (''decision.reason.'' @ m @ '' is not a function'') None))"

text \<open>\<open>decision.isDenied() && decision.reason.m()\<close>: the method is called only on a denial.\<close>

definition denied_and :: "decision \<Rightarrow> string \<Rightarrow> js_error + bool" where
  "denied_and d m = (if isDenied d then call_reason (reason d) m else Inr False)"

text \<open>\<open>const role = req.user?.role || 'guest'\<close>.\<close>

definition role_of :: "request \<Rightarrow> jsval" where
  "role_of req = js_or (opt_prop (user req) ''role'') (JStr ''guest'')"

text \<open>
  The \<open>switch\<close> on the role. It has three cases and no default: for any other value both
  \<open>limit\<close> and \<open>message\<close> keep the value \<open>undefined\<close> they were declared with.
\<close>

definition tier :: "jsval \<Rightarrow> int option \<times> string option" where
  "tier role =
     (if role = JStr ''admin'' then
        (Some 20, Some ''Admin request limit exceeded (20 per minute). Slow Down.'')
      else if role = JStr ''user'' then
        (Some 10, Some ''User request limit exceeded (10 per minute). Slow Down.'')
      else if role = JStr ''guest'' then
        (Some 5, Some ''Guest request limit exceeded (5 per minute). Slow Down.'')
      else (None, None))"

text \<open>
  The object handed to \<open>slidingWindow\<close>. The last property is written in single quotes,
  so it is the same literal text for every role.
\<close>

definition slidingWindow :: "request \<Rightarrow> sw_options" where
  "slidingWindow req =
     \<lparr>node = ''LIVE'', interval = ''1m'', max' = fst (tier (role_of req)),
      nam = ''${role}-rate-limit''\<rparr>"

definition deny_context :: "request \<Rightarrow> jsval" where
  "deny_context req =
     JObj [(''ip'', JStr (ip req)), (''userAgent'', get_header req ''User-Agent''),
           (''path'', JStr (path req))]"

text \<open>The \<open>catch\<close> block of the controller.\<close>

definition security_catch :: "js_error \<Rightarrow> event list" where
  "security_catch e =
     [ConsoleError ''Arcjet middleware error:'' e,
      Respond 500 (JObj [(''errors'', JStr ''Internal Server error''),
                         (''message'', JStr ''Something went wrong with security middleware'')])]"

text \<open>
  The three tests on the decision, in the order and with the method names of the source.
\<close>

definition classify :: "request \<Rightarrow> decision \<Rightarrow> event list" where
  "classify req d =
     (case denied_and d ''isBot'' of
        Inl e \<Rightarrow> security_catch e
      | Inr True \<Rightarrow>
          [Log Warn ''Bot request blocked'' [deny_context req] None,
           Respond 403 (JObj [(''error'', JStr ''Forbidden''),
                              (''message'', JStr ''Automated requests are not allowed.'')])]
      | Inr False \<Rightarrow>
     (case denied_and d ''isSheild'' of
        Inl e \<Rightarrow> security_catch e
      | Inr True \<Rightarrow>
          [Log Warn ''Shield blocked request'' [deny_context req] None,
           Respond 403 (JObj [(''error'', JStr ''Forbidden''),
                              (''message'', JStr ''Request blocked by security policy.'')])]
      | Inr False \<Rightarrow>
     (case denied_and d ''isRateLimit'' of
        Inl e \<Rightarrow> security_catch e
      | Inr True \<Rightarrow>
          [Log Warn ''Rate limit exceeded'' [deny_context req] None,
           Respond 403 (JObj [(''error'', JStr ''Forbidden''),
                              (''message'', JStr ''Too many requests.'')])]
      | Inr False \<Rightarrow> [Next])))"

text \<open>
  The controller. \<open>aj.withRule(...)\<close> and \<open>client.protect(req)\<close> are the provider: a
  parameter that takes the rule options and the request and returns a decision or throws.
\<close>

definition securityMiddleware ::
  "(sw_options \<Rightarrow> request \<Rightarrow> js_error + decision) \<Rightarrow> request \<Rightarrow> event list" where
  "securityMiddleware protect req =
     Protect (slidingWindow req) #
     (case protect (slidingWindow req) req of
        Inl e \<Rightarrow> security_catch e
      | Inr d \<Rightarrow> classify req d)"

section \<open>Validation schemas\<close>

text \<open>
  \<open>safeParse\<close> returns the parsed data or the issues; an issue is kept as the path of the
  field it is about (the empty path for the object itself).
\<close>

definition is_digit :: "char \<Rightarrow> bool" where
  "is_digit c = (c \<in> set ''0123456789'')"

text \<open>
  \<open>parseInt(val, 10)\<close> on a string of decimal digits. The model's integers are exact;
  JavaScript's are doubles, exact up to \<open>2^53\<close>.
\<close>

definition parseInt10 :: "string \<Rightarrow> int" where
  "parseInt10 s = foldl (\<lambda>n c. 10 * n + (int (of_char c) - 48)) 0 s"

text \<open>\<open>userIdSchema\<close>: \<open>id\<close> is a string matching \<open>/^\d+$/\<close>, transformed by \<open>parseInt\<close>.\<close>

definition userIdSchema :: "(string \<times> string) list \<Rightarrow> string list + int" where
  "userIdSchema ps =
     (case map_of ps ''id'' of
        None \<Rightarrow> Inl [''id'']
      | Some s \<Rightarrow> if s \<noteq> [] \<and> list_all is_digit s then Inr (parseInt10 s) else Inl [''id''])"

text \<open>\<open>trim()\<close> and \<open>toLowerCase()\<close>, on ASCII.\<close>

definition is_space :: "char \<Rightarrow> bool" where
  "is_space c = (c \<in> set [CHR '' '', CHR 0x09, CHR 0x0A, CHR 0x0B, CHR 0x0C, CHR 0x0D])"

definition trim :: "string \<Rightarrow> string" where
  "trim s = rev (dropWhile is_space (rev (dropWhile is_space s)))"

definition lower_char :: "char \<Rightarrow> char" where
  "lower_char c =
     (if 65 \<le> (of_char c :: nat) \<and> (of_char c :: nat) \<le> 90
      then char_of ((of_char c :: nat) + 32) else c)"

definition toLowerCase :: "string \<Rightarrow> string" where
  "toLowerCase s = map lower_char s"

text \<open>The outcome of an optional field: not valid, not given, or the parsed value.\<close>

datatype 'a parsed = Invalid | Absent | Present 'a

definition given :: "'a parsed \<Rightarrow> 'a option" where
  "given p = (case p of Present x \<Rightarrow> Some x | _ \<Rightarrow> None)"

text \<open>\<open>name: z.string().min(2).max(150).trim().optional()\<close>.\<close>

definition parse_name :: "jsval \<Rightarrow> string parsed" where
  "parse_name v =
     (case v of
        JUndefined \<Rightarrow> Absent
      | JStr s \<Rightarrow> if length s < 2 then Invalid else if 150 < length s then Invalid
                  else Present (trim s)
      | _ \<Rightarrow> Invalid)"

text \<open>
  \<open>email: z.string().email(...).max(220).toLowerCase().trim().optional()\<close>. The
  validator's test for an e-mail address is a parameter.
\<close>

definition parse_email :: "(string \<Rightarrow> bool) \<Rightarrow> jsval \<Rightarrow> string parsed" where
  "parse_email isEmail v =
     (case v of
        JUndefined \<Rightarrow> Absent
      | JStr s \<Rightarrow> if isEmail s \<and> length s \<le> 220 then Present (trim (toLowerCase s))
                  else Invalid
      | _ \<Rightarrow> Invalid)"

text \<open>\<open>role: z.enum(["user", "admin"]).optional()\<close>.\<close>

definition parse_role :: "jsval \<Rightarrow> string parsed" where
  "parse_role v =
     (case v of
        JUndefined \<Rightarrow> Absent
      | JStr s \<Rightarrow> if s = ''user'' \<or> s = ''admin'' then Present s else Invalid
      | _ \<Rightarrow> Invalid)"

record updates =
  name :: "string option"
  email :: "string option"
  role :: "string option"

text \<open>
  \<open>updateUserSchema\<close>: an object with the three optional fields (other keys are dropped),
  refined by "at least one field is not \<open>undefined\<close>".
\<close>

definition updateUserSchema :: "(string \<Rightarrow> bool) \<Rightarrow> jsval \<Rightarrow> string list + updates" where
  "updateUserSchema isEmail b =
     (case b of
        JObj kvs \<Rightarrow>
          (let n = parse_name (opt_prop b ''name'');
               e = parse_email isEmail (opt_prop b ''email'');
               r = parse_role (opt_prop b ''role'')
           in if n = Invalid \<or> e = Invalid \<or> r = Invalid then
                Inl ((if n = Invalid then [''name''] else []) @
                     (if e = Invalid then [''email''] else []) @
                     (if r = Invalid then [''role''] else []))
              else if n = Absent \<and> e = Absent \<and> r = Absent then Inl [[]]
              else Inr \<lparr>name = given n, email = given e, role = given r\<rparr>)
      | _ \<Rightarrow> Inl [[]])"

section \<open>The users table and the services\<close>

record users_row =
  users_id :: int
  users_name :: string
  users_email :: string
  users_password :: string
  users_role :: string
  users_created_at :: int
  users_updated_at :: int

text \<open>
  The database: the rows of \<open>users\<close>, and the error every statement is rejected with
  while the database cannot be reached (\<open>None\<close> when it can).
\<close>

record database =
  rows :: "users_row list"
  fault :: "js_error option"

text \<open>The first element of a result list, as \<open>const [x] = ...\<close> binds it.\<close>

definition first_of :: "jsval list \<Rightarrow> jsval" where
  "first_of xs = (case xs of [] \<Rightarrow> JUndefined | x # _ \<Rightarrow> x)"

definition getAllUsers :: "database \<Rightarrow> database \<times> event list \<times> (js_error + jsval)" where
  "getAllUsers db =
     (case fault db of
        Some e \<Rightarrow> (db, [Db Select, Log Error ''Error getting users'' [] (Some e)], Inl e)
      | None \<Rightarrow>
          (db, [Db Select],
           Inr (JArr (map (\<lambda>u. JObj [(''id'', JNum (users_id u)),
                                      (''email'', JStr (users_email u)),
                                      (''name'', JStr (users_name u)),
                                      (''role'', JStr (users_role u)),
                                      (''created_at'', JDate (users_created_at u)),
                                      (''updated_at'', JDate (users_updated_at u))])
                          (rows db)))))"

definition getUserByIdService ::
  "int \<Rightarrow> database \<Rightarrow> database \<times> event list \<times> (js_error + jsval)" where
  "getUserByIdService i db =
     (case fault db of
        Some e \<Rightarrow>
          (db, [Db Select, Log Error ''Error getting user by id ${id}'' [JNum i] (Some e)], Inl e)
      | None \<Rightarrow>
          (db, [Db Select],
           Inr (js_or
                  (first_of
                     (map (\<lambda>u. JObj [(''id'', JNum (users_id u)),
                                      (''email'', JStr (users_email u)),
                                      (''name'', JStr (users_name u)),
                                      (''role'', JStr (users_role u)),
                                      (''created_at'', JDate (users_created_at u)),
                                      (''updated_at'', JDate (users_updated_at u))])
                          (take 1 (filter (\<lambda>u. users_id u = i) (rows db)))))
                  JNull)))"

text \<open>\<open>.set({...updates, updated_at: new Date()})\<close> on one row.\<close>

definition set_columns :: "updates \<Rightarrow> int \<Rightarrow> users_row \<Rightarrow> users_row" where
  "set_columns upd now u =
     u\<lparr>users_name := (case name upd of None \<Rightarrow> users_name u | Some n \<Rightarrow> n),
       users_email := (case email upd of None \<Rightarrow> users_email u | Some m \<Rightarrow> m),
       users_role := (case role upd of None \<Rightarrow> users_role u | Some r \<Rightarrow> r),
       users_updated_at := now\<rparr>"

definition updateUserService ::
  "int \<Rightarrow> int \<Rightarrow> updates \<Rightarrow> database \<Rightarrow> database \<times> event list \<times> (js_error + jsval)" where
  "updateUserService now i upd db =
     (case fault db of
        Some e \<Rightarrow>
          (db, [Db Select, Log Error ''Error updating user ${id}'' [JNum i] (Some e)], Inl e)
      | None \<Rightarrow>
          (if take 1 (filter (\<lambda>u. users_id u = i) (rows db)) = [] then
             (db, [Db Select,
                   Log Error ''Error updating user ${id}'' [JNum i]
                     (Some (JsError ''User not found'' (Some 404)))],
              Inl (JsError ''User not found'' (Some 404)))
           else
             (db\<lparr>rows := map (\<lambda>u. if users_id u = i then set_columns upd now u else u) (rows db)\<rparr>,
              [Db Select, Db Update],
              Inr (first_of
                     (map (\<lambda>u. JObj [(''id'', JNum (users_id u)),
                                      (''email'', JStr (users_email u)),
                                      (''name'', JStr (users_name u)),
                                      (''role'', JStr (users_role u)),
                                      (''created_at'', JDate (users_created_at u)),
                                      (''updated_at'', JDate (users_updated_at u))])
                          (map (set_columns upd now)
                               (filter (\<lambda>u. users_id u = i) (rows db))))))))"

definition deleteUserService ::
  "int \<Rightarrow> database \<Rightarrow> database \<times> event list \<times> (js_error + jsval)" where
  "deleteUserService i db =
     (case fault db of
        Some e \<Rightarrow>
          (db, [Db Select, Log Error ''Error deleting user ${id}'' [JNum i] (Some e)], Inl e)
      | None \<Rightarrow>
          (if take 1 (filter (\<lambda>u. users_id u = i) (rows db)) = [] then
             (db, [Db Select,
                   Log Error ''Error deleting user ${id}'' [JNum i]
                     (Some (JsError ''User not found'' (Some 404)))],
              Inl (JsError ''User not found'' (Some 404)))
           else
             (db\<lparr>rows := filter (\<lambda>u. users_id u \<noteq> i) (rows db)\<rparr>,
              [Db Select, Db Delete, Log Info ''User ${id} deleted successfully'' [JNum i] None],
              Inr (first_of
                     (map (\<lambda>u. JObj [(''id'', JNum (users_id u)),
                                      (''email'', JStr (users_email u)),
                                      (''name'', JStr (users_name u)),
                                      (''role'', JStr (users_role u)),
                                      (''created_at'', JDate (users_created_at u)),
                                      (''updated_at'', JDate (users_updated_at u))])
                          (filter (\<lambda>u. users_id u = i) (rows db)))))))"

section \<open>The user controllers\<close>

text \<open>
  What the controllers take from outside the files at hand: the formatter of validation
  issues, the validator's e-mail test, \<open>Number(v)\<close> on the values that convert through
  their text (strings and arrays), and the clock read by \<open>new Date()\<close>.
\<close>

record env =
  formatValidationError :: "string list \<Rightarrow> jsval"
  isEmail :: "string \<Rightarrow> bool"
  numberOfText :: "jsval \<Rightarrow> int option"
  now :: int

text \<open>
  \<open>Number(v)\<close>, with \<open>None\<close> for \<open>NaN\<close> and for any number that is not an integer (neither
  is ever \<open>===\<close> to a parsed id).
\<close>

definition Number :: "env \<Rightarrow> jsval \<Rightarrow> int option" where
  "Number E v =
     (case v of
        JUndefined \<Rightarrow> None
      | JNull \<Rightarrow> Some 0
      | JBool b \<Rightarrow> Some (if b then 1 else 0)
      | JNum n \<Rightarrow> Some n
      | JStr s \<Rightarrow> numberOfText E v
      | JDate t \<Rightarrow> Some t
      | JArr xs \<Rightarrow> numberOfText E v
      | JObj kvs \<Rightarrow> None)"

text \<open>\<open>allUsers.length\<close>.\<close>

definition js_length :: "jsval \<Rightarrow> jsval" where
  "js_length v =
     (case v of
        JArr xs \<Rightarrow> JNum (int (length xs))
      | JStr s \<Rightarrow> JNum (int (length s))
      | _ \<Rightarrow> JUndefined)"

definition validation_failed :: "env \<Rightarrow> string list \<Rightarrow> event" where
  "validation_failed E issues =
     Respond 400 (JObj [(''error'', JStr ''Validation failed''),
                        (''details'', formatValidationError E issues)])"

definition fetchAllUsers :: "database \<Rightarrow> request \<Rightarrow> database \<times> event list" where
  "fetchAllUsers db req =
     (case getAllUsers db of
        (db', tr, Inr allUsers) \<Rightarrow>
          (db', Log Info ''Getting users...'' [] None # tr @
                [Respond 200 (JObj [(''message'', JStr ''Successfully retrieved users''),
                                    (''users'', allUsers),
                                    (''count'', js_length allUsers)])])
      | (db', tr, Inl e) \<Rightarrow>
          (db', Log Info ''Getting users...'' [] None # tr @
                [Log Error ''Error fetching all users'' [] (Some e), NextErr e]))"

definition getUserById :: "env \<Rightarrow> database \<Rightarrow> request \<Rightarrow> database \<times> event list" where
  "getUserById E db req =
     (case userIdSchema (params req) of
        Inl issues \<Rightarrow> (db, [validation_failed E issues])
      | Inr i \<Rightarrow>
          (let requester = user req;
               isAdmin = (opt_prop requester ''role'' = JStr ''admin'');
               isSelf = (truthy requester \<and> Number E (opt_prop requester ''id'') = Some i)
           in if \<not> isAdmin \<and> \<not> isSelf then
                (db, [Respond 403 (JObj [(''error'', JStr ''Forbidden''),
                         (''message'', JStr ''You can only access your own user information'')])])
              else
                (case getUserByIdService i db of
                   (db', tr, Inr u) \<Rightarrow>
                     (db', Log Info ''Getting user by id: ${id}'' [JNum i] None # tr @
                           (if \<not> truthy u
                            then [Respond 404 (JObj [(''error'', JStr ''User not found'')])]
                            else [Respond 200 (JObj [(''message'', JStr ''Successfully retrieved user''),
                                                     (''user'', u)])]))
                 | (db', tr, Inl e) \<Rightarrow>
                     (db', Log Info ''Getting user by id: ${id}'' [JNum i] None # tr @
                           [Log Error ''Error fetching user by id'' [] (Some e), NextErr e]))))"

text \<open>The end of the \<open>catch\<close> blocks of \<open>updateUser\<close> and \<open>deleteUser\<close>.\<close>

definition not_found_or_next :: "js_error \<Rightarrow> event list" where
  "not_found_or_next e =
     (if message e = ''User not found'' \<or> status e = Some 404
      then [Respond 404 (JObj [(''error'', JStr ''User not found'')])]
      else [NextErr e])"

definition updateUser :: "env \<Rightarrow> database \<Rightarrow> request \<Rightarrow> database \<times> event list" where
  "updateUser E db req =
     (case userIdSchema (params req) of
        Inl issues \<Rightarrow> (db, [validation_failed E issues])
      | Inr i \<Rightarrow>
     (case updateUserSchema (isEmail E) (body req) of
        Inl issues \<Rightarrow> (db, [validation_failed E issues])
      | Inr upd \<Rightarrow>
          (let requester = user req in
           if \<not> truthy requester then
             (db, [Respond 401 (JObj [(''error'', JStr ''Unauthorized'')])])
           else
             (let isAdmin = (opt_prop requester ''role'' = JStr ''admin'');
                  isSelf = (Number E (opt_prop requester ''id'') = Some i)
              in if \<not> isAdmin \<and> \<not> isSelf then
                   (db, [Respond 403 (JObj [(''error'', JStr ''Forbidden''),
                            (''message'', JStr ''You can only change your own information'')])])
                 else if \<not> isAdmin \<and> role upd \<noteq> None then
                   (db, [Respond 403 (JObj [(''error'', JStr ''Forbidden''),
                            (''message'', JStr ''Only admin users can change roles'')])])
                 else
                   (case updateUserService (now E) i upd db of
                      (db', tr, Inr updatedUser) \<Rightarrow>
                        (db', Log Info ''Updating user ${id} by requester ${requester.id}''
                                [JNum i, opt_prop requester ''id''] None # tr @
                              [Respond 200 (JObj [(''message'', JStr ''User updated successfully''),
                                                  (''user'', updatedUser)])])
                    | (db', tr, Inl e) \<Rightarrow>
                        (db', Log Info ''Updating user ${id} by requester ${requester.id}''
                                [JNum i, opt_prop requester ''id''] None # tr @
                              Log Error ''Error updating user'' [] (Some e) #
                              not_found_or_next e))))))"

definition deleteUser :: "env \<Rightarrow> database \<Rightarrow> request \<Rightarrow> database \<times> event list" where
  "deleteUser E db req =
     (case userIdSchema (params req) of
        Inl issues \<Rightarrow> (db, [validation_failed E issues])
      | Inr i \<Rightarrow>
          (let requester = user req in
           if \<not> truthy requester then
             (db, [Respond 401 (JObj [(''error'', JStr ''Unauthorized'')])])
           else
             (let isAdmin = (opt_prop requester ''role'' = JStr ''admin'');
                  isSelf = (Number E (opt_prop requester ''id'') = Some i)
              in if \<not> isAdmin \<and> \<not> isSelf then
                   (db, [Respond 403 (JObj [(''error'', JStr ''Forbidden''),
                            (''message'', JStr ''You can only delete your own account'')])])
                 else
                   (case deleteUserService i db of
                      (db', tr, Inr deletedUser) \<Rightarrow>
                        (db', Log Info ''Deleting user ${id} by requester ${requester.id}''
                                [JNum i, opt_prop requester ''id''] None # tr @
                              [Respond 200 (JObj [(''message'', JStr ''User deleted successfully'')])])
                    | (db', tr, Inl e) \<Rightarrow>
                        (db', Log Info ''Deleting user ${id} by requester ${requester.id}''
                                [JNum i, opt_prop requester ''id''] None # tr @
                              Log Error ''Error deleting user'' [] (Some e) #
                              not_found_or_next e)))))"

section \<open>The user routes\<close>

datatype guard = RequireAuth

datatype handler = FetchAllUsers | GetUserById | UpdateUser | DeleteUser

record route =
  verb :: string
  pattern :: string
  guards :: "guard list"
  handler :: handler

text \<open>The four routes of the router, in the order they are registered.\<close>

definition router :: "route list" where
  "router =
     [\<lparr>verb = ''GET'', pattern = ''/'', guards = [], handler = FetchAllUsers\<rparr>,
      \<lparr>verb = ''GET'', pattern = ''/:id'', guards = [RequireAuth], handler = GetUserById\<rparr>,
      \<lparr>verb = ''PUT'', pattern = ''/:id'', guards = [RequireAuth], handler = UpdateUser\<rparr>,
      \<lparr>verb = ''DELETE'', pattern = ''/:id'', guards = [RequireAuth], handler = DeleteUser\<rparr>]"

definition run_handler :: "handler \<Rightarrow> env \<Rightarrow> database \<Rightarrow> request \<Rightarrow> database \<times> event list" where
  "run_handler h E db req =
     (case h of
        FetchAllUsers \<Rightarrow> fetchAllUsers db req
      | GetUserById \<Rightarrow> getUserById E db req
      | UpdateUser \<Rightarrow> updateUser E db req
      | DeleteUser \<Rightarrow> deleteUser E db req)"

text \<open>
  A route runs its guards in order and then its handler; a guard that responds instead
  of calling \<open>next()\<close> ends the request.
\<close>

fun run_route :: "guard list \<Rightarrow> handler \<Rightarrow> env \<Rightarrow> database \<Rightarrow> request \<Rightarrow> database \<times> event list" where
  "run_route [] h E db req = run_handler h E db req"
| "run_route (RequireAuth # gs) h E db req =
     (if requireAuth req = [Next]
      then (case run_route gs h E db req of (db', tr) \<Rightarrow> (db', Next # tr))
      else (db, requireAuth req))"

text \<open>
  The router on a request that Express has matched to the route registered for a verb and
  a path pattern (the route parameters are in the request); no such route: the request goes
  on to the next stage.
\<close>

definition user_routes :: "string \<Rightarrow> string \<Rightarrow> env \<Rightarrow> database \<Rightarrow> request \<Rightarrow> database \<times> event list" where
  "user_routes v p E db req =
     (case find (\<lambda>r. verb r = v \<and> pattern r = p) router of
        None \<Rightarrow> (db, [Next])
      | Some r \<Rightarrow> run_route (guards r) (handler r) E db req)"

section \<open>Views and sample inputs\<close>

text \<open>
  The public view of a row, in the words of the specification: the fields \<open>id\<close>, \<open>email\<close>,
  \<open>name\<close>, \<open>role\<close>, \<open>created_at\<close> and \<open>updated_at\<close>. The services do not use it; their
  results are compared with it.
\<close>

definition public_view :: "users_row \<Rightarrow> jsval" where
  "public_view u =
     JObj [(''id'', JNum (users_id u)), (''email'', JStr (users_email u)),
           (''name'', JStr (users_name u)), (''role'', JStr (users_role u)),
           (''created_at'', JDate (users_created_at u)),
           (''updated_at'', JDate (users_updated_at u))]"

text \<open>\<open>Object.keys(v)\<close>.\<close>

definition keys :: "jsval \<Rightarrow> string list" where
  "keys v = (case v of JObj kvs \<Rightarrow> map fst kvs | _ \<Rightarrow> [])"

text \<open>The database with every stored password replaced by \<open>x\<close>.\<close>

definition scrub :: "string \<Rightarrow> database \<Rightarrow> database" where
  "scrub x db = db\<lparr>rows := map (\<lambda>u. u\<lparr>users_password := x\<rparr>) (rows db)\<rparr>"

text \<open>
  A request with no cookie and no \<open>Authorization\<close> header, one with a bearer token, a
  principal as the resolver attaches it, a denial with given reason flags, a database
  with two users.
\<close>

definition sample_request :: request where
  "sample_request =
     \<lparr>cookies = JObj [], get = (\<lambda>h. if h = ''User-Agent'' then Some ''curl/8.5.0'' else None),
      ip = ''203.0.113.9'', path = ''/api/users'', params = [], body = JUndefined,
      user = JUndefined\<rparr>"

definition bearer_request :: request where
  "bearer_request =
     sample_request\<lparr>get := (\<lambda>h. if h = ''Authorization'' then Some ''Bearer abc.def.ghi'' else None)\<rparr>"

definition principal :: "int \<Rightarrow> string \<Rightarrow> jsval" where
  "principal i r =
     JObj [(''id'', JNum i), (''email'', JStr ''someone@example.com''), (''role'', JStr r)]"

definition denied :: "bool \<Rightarrow> bool \<Rightarrow> bool \<Rightarrow> decision" where
  "denied b s r = \<lparr>isDenied = True, reason = \<lparr>isBot = b, isShield = s, isRateLimit = r\<rparr>\<rparr>"

definition sample_env :: env where
  "sample_env =
     \<lparr>formatValidationError = (\<lambda>issues. JArr (map JStr issues)),
      isEmail = (\<lambda>s. CHR ''@'' \<in> set s),
      numberOfText = (\<lambda>v. None),
      now = 1700000000\<rparr>"

definition sample_db :: database where
  "sample_db =
     \<lparr>rows =
        [\<lparr>users_id = 1, users_name = ''Ada'', users_email = ''ada@example.com'',
          users_password = ''$2b$10$hashA'', users_role = ''admin'',
          users_created_at = 1600000000, users_updated_at = 1600000000\<rparr>,
         \<lparr>users_id = 2, users_name = ''Bob'', users_email = ''bob@example.com'',
          users_password = ''$2b$10$hashB'', users_role = ''user'',
          users_created_at = 1600000500, users_updated_at = 1600000900\<rparr>],
      fault = None\<rparr>"

section \<open>The admission pipeline: properties\<close>

lemma find_token_sample: "find_token sample_request = JUndefined"
  by (simp add: find_token_def sample_request_def opt_prop_def startsWith_def)

lemma find_token_bearer: "find_token bearer_request = JStr ''abc.def.ghi''"
  by (simp add: find_token_def bearer_request_def sample_request_def opt_prop_def
      startsWith_def substring_def)

lemma role_of_principal: "role_of (req\<lparr>user := principal i r\<rparr>) = (if r = [] then JStr ''guest'' else JStr r)"
  by (simp add: role_of_def principal_def opt_prop_def js_or_def)

lemma classify_allowed: "\<not> isDenied d \<Longrightarrow> classify req d = [Next]"
  by (simp add: classify_def denied_and_def)

lemma classify_denied_bot:
  "isDenied d \<Longrightarrow> isBot (reason d) \<Longrightarrow>
   classify req d =
     [Log Warn ''Bot request blocked'' [deny_context req] None,
      Respond 403 (JObj [(''error'', JStr ''Forbidden''),
                         (''message'', JStr ''Automated requests are not allowed.'')])]"
  by (simp add: classify_def denied_and_def call_reason_def)

lemma classify_denied_other:
  "isDenied d \<Longrightarrow> \<not> isBot (reason d) \<Longrightarrow>
   classify req d = security_catch (JsError ''decision.reason.isSheild is not a function'' None)"
  by (simp add: classify_def denied_and_def call_reason_def)

text \<open>
  C1. The tier follows the role: admin 20, user 10, and every other case 5 per minute.
  The \<open>switch\<close> has no default branch, so the last part fails: a principal whose role is
  none of \<open>admin\<close>, \<open>user\<close>, \<open>guest\<close> (here \<open>moderator\<close>) gets no limit at all, and the rule
  is built with \<open>max: undefined\<close>, where the guest tier would give 5. An admin, a user,
  a principal with an empty role and a request with no principal get 20, 10, 5 and 5.
\<close>

theorem C1_unmapped_role_has_no_limit:
  "tier (role_of (sample_request\<lparr>user := principal 7 ''moderator''\<rparr>)) = (None, None)
   \<and> max' (slidingWindow (sample_request\<lparr>user := principal 7 ''moderator''\<rparr>)) = None
   \<and> max' (slidingWindow (sample_request\<lparr>user := principal 1 ''admin''\<rparr>)) = Some 20
   \<and> max' (slidingWindow (sample_request\<lparr>user := principal 2 ''user''\<rparr>)) = Some 10
   \<and> max' (slidingWindow (sample_request\<lparr>user := principal 3 ''''\<rparr>)) = Some 5
   \<and> max' (slidingWindow sample_request) = Some 5"
  by (simp add: slidingWindow_def role_of_principal tier_def)
     (simp add: role_of_def sample_request_def opt_prop_def js_or_def)

text \<open>
  C2. The identity resolver never ends a request. With no credential it attaches no
  principal and logs nothing; with a credential that fails verification it logs exactly
  one warning and attaches no principal, so the request it hands on carries the same
  \<open>req.user\<close> in both cases; and in every case, whatever the verifier does, the resolver
  changes nothing but \<open>req.user\<close>, sends no response, logs at most that one warning and
  ends by calling the next stage.
\<close>

theorem C2_resolver_never_rejects:
  "(\<not> truthy (find_token req) \<longrightarrow>
      attachUserFromToken verify req = (req\<lparr>user := JUndefined\<rparr>, [Next]))
   \<and> (truthy (find_token req) \<longrightarrow> verify (find_token req) = Inl e \<longrightarrow>
      attachUserFromToken verify req =
        (req\<lparr>user := JUndefined\<rparr>,
         [Log Warn ''Invalid or expired JWT token''
            [JObj [(''error'', JStr (message e)), (''ip'', JStr (ip req)),
                   (''path'', JStr (path req))]] None,
          Next]))
   \<and> (\<exists>u pre. attachUserFromToken verify req = (req\<lparr>user := u\<rparr>, pre @ [Next])
        \<and> (pre = [] \<or> (\<exists>m vs. pre = [Log Warn m vs None])))"
  by (auto simp: attachUserFromToken_def attach_catch_def Let_def split: sum.splits)

theorem C2_resolver_never_rejects_witness:
  "\<not> truthy (find_token sample_request)
   \<and> attachUserFromToken (\<lambda>t. Inl (JsError ''jwt expired'' None)) sample_request =
       (sample_request\<lparr>user := JUndefined\<rparr>, [Next])
   \<and> truthy (find_token bearer_request)
   \<and> attachUserFromToken (\<lambda>t. Inl (JsError ''jwt expired'' None)) bearer_request =
       (bearer_request\<lparr>user := JUndefined\<rparr>,
        [Log Warn ''Invalid or expired JWT token''
           [JObj [(''error'', JStr ''jwt expired''), (''ip'', JStr (ip bearer_request)),
                  (''path'', JStr (path bearer_request))]] None,
         Next])"
  using C2_resolver_never_rejects
          [of sample_request "\<lambda>t. Inl (JsError ''jwt expired'' None)" "JsError ''jwt expired'' None"]
        C2_resolver_never_rejects
          [of bearer_request "\<lambda>t. Inl (JsError ''jwt expired'' None)" "JsError ''jwt expired'' None"]
  by (simp add: find_token_sample find_token_bearer)

text \<open>
  C3. Each of the three denials ends the request with status 403, its own message and a
  warning logged first. The code calls \<open>decision.reason.isSheild()\<close>, a name the reason
  object does not have: on every denial that is not a bot the call throws, the \<open>catch\<close>
  block answers 500 and no warning is logged. Below, a shield denial and a rate-limit
  denial.
\<close>

theorem C3_shield_and_rate_limit_denials_answer_500:
  "securityMiddleware (\<lambda>opts r. Inr (denied False True False)) sample_request =
     [Protect (slidingWindow sample_request),
      ConsoleError ''Arcjet middleware error:''
        (JsError ''decision.reason.isSheild is not a function'' None),
      Respond 500 (JObj [(''errors'', JStr ''Internal Server error''),
                         (''message'', JStr ''Something went wrong with security middleware'')])]
   \<and> securityMiddleware (\<lambda>opts r. Inr (denied False False True)) sample_request =
     [Protect (slidingWindow sample_request),
      ConsoleError ''Arcjet middleware error:''
        (JsError ''decision.reason.isSheild is not a function'' None),
      Respond 500 (JObj [(''errors'', JStr ''Internal Server error''),
                         (''message'', JStr ''Something went wrong with security middleware'')])]"
  by (simp add: securityMiddleware_def classify_denied_other denied_def security_catch_def)

text \<open>
  C4. The reason of a denial is chosen in the order bot, shield, rate-limit. A denial
  flagged bot and rate-limit is reported as bot, as claimed; a denial flagged shield and
  rate-limit but not bot is reported as neither: the misspelt call of C3 throws before
  any reason is chosen.
\<close>

theorem C4_shield_is_never_reported:
  "classify sample_request (denied True False True) =
     [Log Warn ''Bot request blocked'' [deny_context sample_request] None,
      Respond 403 (JObj [(''error'', JStr ''Forbidden''),
                         (''message'', JStr ''Automated requests are not allowed.'')])]
   \<and> classify sample_request (denied False True True) =
     [ConsoleError ''Arcjet middleware error:''
        (JsError ''decision.reason.isSheild is not a function'' None),
      Respond 500 (JObj [(''errors'', JStr ''Internal Server error''),
                         (''message'', JStr ''Something went wrong with security middleware'')])]"
  by (simp add: classify_denied_bot classify_denied_other denied_def security_catch_def)

text \<open>
  C5. A denied request is never passed on. Every run of the controller makes one call of
  the provider and then ends in exactly one of three ways: the next stage is called, and
  then the decision was an allow; a warning is logged and 403 is sent; the error is
  written to the console and 500 is sent. Whenever the decision is a denial, whatever its
  reason flags, the next stage is not called.
\<close>

theorem C5_denied_is_never_forwarded:
  "((\<exists>d. protect (slidingWindow req) req = Inr d \<and> isDenied d = False
         \<and> securityMiddleware protect req = [Protect (slidingWindow req), Next])
    \<or> (\<exists>m b. securityMiddleware protect req =
         [Protect (slidingWindow req), Log Warn m [deny_context req] None, Respond 403 b])
    \<or> (\<exists>e b. securityMiddleware protect req =
         [Protect (slidingWindow req), ConsoleError ''Arcjet middleware error:'' e,
          Respond 500 b]))
   \<and> (\<forall>d. protect (slidingWindow req) req = Inr d \<longrightarrow> isDenied d \<longrightarrow>
         Next \<notin> set (securityMiddleware protect req))"
proof (cases "protect (slidingWindow req) req")
  case (Inl e)
  then show ?thesis by (simp add: securityMiddleware_def security_catch_def)
next
  case (Inr d)
  show ?thesis
  proof (cases "isDenied d")
    case False
    with Inr show ?thesis by (simp add: securityMiddleware_def classify_allowed)
  next
    case True
    show ?thesis
    proof (cases "isBot (reason d)")
      case bot: True
      with True Inr show ?thesis by (simp add: securityMiddleware_def classify_denied_bot)
    next
      case bot: False
      with True Inr show ?thesis
        by (simp add: securityMiddleware_def classify_denied_other security_catch_def)
    qed
  qed
qed

theorem C5_denied_is_never_forwarded_witness:
  "isDenied (denied False False False)
   \<and> Next \<notin> set (securityMiddleware (\<lambda>opts r. Inr (denied False False False)) sample_request)"
proof -
  have d: "isDenied (denied False False False)" by (simp add: denied_def)
  from C5_denied_is_never_forwarded
         [of "\<lambda>opts r. Inr (denied False False False)" sample_request] d
  show ?thesis by simp
qed

text \<open>
  C6. When the call of the provider fails, the controller has called it once, writes the
  error as it is to the console, answers 500 with a fixed message and does not call the
  next stage. (A provider that never answers is outside the model: the code sets no
  timeout, so a timeout is an error thrown by the provider.)
\<close>

theorem C6_provider_failure_answers_500:
  "protect (slidingWindow req) req = Inl e \<Longrightarrow>
   securityMiddleware protect req =
     [Protect (slidingWindow req), ConsoleError ''Arcjet middleware error:'' e,
      Respond 500 (JObj [(''errors'', JStr ''Internal Server error''),
                         (''message'', JStr ''Something went wrong with security middleware'')])]"
  by (simp add: securityMiddleware_def security_catch_def)

theorem C6_provider_failure_answers_500_witness:
  "securityMiddleware (\<lambda>opts r. Inl (JsError ''fetch failed'' None)) sample_request =
     [Protect (slidingWindow sample_request),
      ConsoleError ''Arcjet middleware error:'' (JsError ''fetch failed'' None),
      Respond 500 (JObj [(''errors'', JStr ''Internal Server error''),
                         (''message'', JStr ''Something went wrong with security middleware'')])]"
  using C6_provider_failure_answers_500
          [of "\<lambda>opts r. Inl (JsError ''fetch failed'' None)" sample_request "JsError ''fetch failed'' None"]
  by simp

text \<open>
  C7. The rule sent to the provider is keyed by the role name and carries the tier's
  window and maximum. The window and the maximum are right, but the key is not: the
  options carry the property \<open>nam\<close> (not \<open>name\<close>), and its value is written in single
  quotes, so that the place \<open>${role}\<close> is never filled in. The rules for an admin and for a
  user carry the same text.
\<close>

theorem C7_rule_key_is_the_same_for_all_roles:
  "slidingWindow (sample_request\<lparr>user := principal 1 ''admin''\<rparr>) =
     \<lparr>node = ''LIVE'', interval = ''1m'', max' = Some 20, nam = ''${role}-rate-limit''\<rparr>
   \<and> slidingWindow (sample_request\<lparr>user := principal 2 ''user''\<rparr>) =
     \<lparr>node = ''LIVE'', interval = ''1m'', max' = Some 10, nam = ''${role}-rate-limit''\<rparr>
   \<and> nam (slidingWindow (sample_request\<lparr>user := principal 1 ''admin''\<rparr>)) =
     nam (slidingWindow (sample_request\<lparr>user := principal 2 ''user''\<rparr>))"
  by (simp add: slidingWindow_def role_of_principal tier_def)

section \<open>The user endpoints: properties\<close>

subsection \<open>What the services return\<close>

lemma getAllUsers_ok:
  "fault db = None \<Longrightarrow> getAllUsers db = (db, [Db Select], Inr (JArr (map public_view (rows db))))"
  by (simp add: getAllUsers_def public_view_def)

lemma getAllUsers_Inr:
  "getAllUsers db = (db', tr, Inr v) \<Longrightarrow> v = JArr (map public_view (rows db))"
  by (auto simp: getAllUsers_def public_view_def split: option.splits)

lemma getUserByIdService_Inr:
  "getUserByIdService i db = (db', tr, Inr v) \<Longrightarrow>
     v = JNull \<or> (\<exists>u\<in>set (rows db). users_id u = i \<and> v = public_view u)"
  by (cases "filter (\<lambda>u. users_id u = i) (rows db)")
     (auto simp: getUserByIdService_def public_view_def first_of_def js_or_def
           split: option.splits dest: filter_eq_ConsD)

lemma updateUserService_Inr:
  "updateUserService t i upd db = (db', tr, Inr v) \<Longrightarrow>
     \<exists>u\<in>set (rows db'). users_id u = i \<and> v = public_view u"
  by (cases "filter (\<lambda>u. users_id u = i) (rows db)")
     (auto simp: updateUserService_def public_view_def first_of_def set_columns_def
           split: option.splits if_splits dest!: filter_eq_ConsD)

lemma deleteUserService_Inr:
  "deleteUserService i db = (db', tr, Inr v) \<Longrightarrow>
     \<exists>u\<in>set (rows db). users_id u = i \<and> v = public_view u"
  by (cases "filter (\<lambda>u. users_id u = i) (rows db)")
     (auto simp: deleteUserService_def public_view_def first_of_def
           split: option.splits if_splits dest!: filter_eq_ConsD)

lemma keys_public_view:
  "keys (public_view u) = [''id'', ''email'', ''name'', ''role'', ''created_at'', ''updated_at'']"
  by (simp add: keys_def public_view_def)

subsection \<open>The stored passwords do not reach any output\<close>

lemma scrub_getAllUsers:
  "getAllUsers (scrub x db) = (case getAllUsers db of (db', tr, res) \<Rightarrow> (scrub x db', tr, res))"
  by (simp add: getAllUsers_def scrub_def comp_def split: option.splits)

lemma scrub_getUserByIdService:
  "getUserByIdService i (scrub x db) =
     (case getUserByIdService i db of (db', tr, res) \<Rightarrow> (scrub x db', tr, res))"
  by (simp add: getUserByIdService_def scrub_def comp_def filter_map take_map split: option.splits)

lemma set_columns_password:
  "set_columns upd t (u\<lparr>users_password := x\<rparr>) = (set_columns upd t u)\<lparr>users_password := x\<rparr>"
  by (simp add: set_columns_def split: option.splits)

lemma scrub_updateUserService:
  "updateUserService t i upd (scrub x db) =
     (case updateUserService t i upd db of (db', tr, res) \<Rightarrow> (scrub x db', tr, res))"
  by (simp add: updateUserService_def scrub_def comp_def filter_map take_map
      set_columns_password if_distrib [of "\<lambda>u. u\<lparr>users_password := x\<rparr>"]
      split: option.splits cong: if_cong)

lemma scrub_deleteUserService:
  "deleteUserService i (scrub x db) =
     (case deleteUserService i db of (db', tr, res) \<Rightarrow> (scrub x db', tr, res))"
  by (simp add: deleteUserService_def scrub_def comp_def filter_map take_map
      split: option.splits)

lemma scrub_fetchAllUsers:
  "fetchAllUsers (scrub x db) req = (case fetchAllUsers db req of (db', tr) \<Rightarrow> (scrub x db', tr))"
  by (simp add: fetchAllUsers_def scrub_getAllUsers split: prod.splits sum.splits)

lemma scrub_getUserById:
  "getUserById E (scrub x db) req = (case getUserById E db req of (db', tr) \<Rightarrow> (scrub x db', tr))"
  by (simp add: getUserById_def scrub_getUserByIdService Let_def split: prod.splits sum.splits)

lemma scrub_updateUser:
  "updateUser E (scrub x db) req = (case updateUser E db req of (db', tr) \<Rightarrow> (scrub x db', tr))"
  by (simp add: updateUser_def scrub_updateUserService Let_def split: prod.splits sum.splits)

lemma scrub_deleteUser:
  "deleteUser E (scrub x db) req = (case deleteUser E db req of (db', tr) \<Rightarrow> (scrub x db', tr))"
  by (simp add: deleteUser_def scrub_deleteUserService Let_def split: prod.splits sum.splits)

lemma scrub_run_handler:
  "run_handler h E (scrub x db) req =
     (case run_handler h E db req of (db', tr) \<Rightarrow> (scrub x db', tr))"
  by (cases h)
     (simp_all add: run_handler_def scrub_fetchAllUsers scrub_getUserById scrub_updateUser
        scrub_deleteUser)

lemma scrub_run_route:
  "run_route gs h E (scrub x db) req =
     (case run_route gs h E db req of (db', tr) \<Rightarrow> (scrub x db', tr))"
  by (induction gs h E db req rule: run_route.induct)
     (simp_all add: scrub_run_handler split: prod.splits)

lemma scrub_user_routes:
  "user_routes v p E (scrub x db) req =
     (case user_routes v p E db req of (db', tr) \<Rightarrow> (scrub x db', tr))"
  by (simp add: user_routes_def scrub_run_route split: option.splits)

subsection \<open>Routes and guards\<close>

lemma find_get_root:
  "find (\<lambda>r. verb r = ''GET'' \<and> pattern r = ''/'') router =
     Some \<lparr>verb = ''GET'', pattern = ''/'', guards = [], handler = FetchAllUsers\<rparr>"
  by (simp add: router_def)

lemma put_route:
  "user_routes ''PUT'' ''/:id'' E db req =
     (if truthy (user req)
      then (case updateUser E db req of (db', tr) \<Rightarrow> (db', Next # tr))
      else (db, [Respond 401 (JObj [(''error'', JStr ''Unauthorized''),
                                    (''message'', JStr ''Authentication required'')])]))"
  by (simp add: user_routes_def router_def requireAuth_def run_handler_def)

lemma fetchAllUsers_ok:
  "fault db = None \<Longrightarrow>
   fetchAllUsers db req =
     (db, [Log Info ''Getting users...'' [] None, Db Select,
           Respond 200 (JObj [(''message'', JStr ''Successfully retrieved users''),
                              (''users'', JArr (map public_view (rows db))),
                              (''count'', JNum (int (length (rows db))))])])"
  by (simp add: fetchAllUsers_def getAllUsers_ok js_length_def)

lemma parse_role_cases:
  "parse_role v = Invalid \<or> (v = JUndefined \<and> parse_role v = Absent)
   \<or> (v = JStr ''user'' \<and> parse_role v = Present ''user'')
   \<or> (v = JStr ''admin'' \<and> parse_role v = Present ''admin'')"
  by (cases v) (auto simp: parse_role_def)

lemma updateUserSchema_role:
  "updateUserSchema ie b = Inr upd \<Longrightarrow>
     (opt_prop b ''role'' = JUndefined \<and> role upd = None)
   \<or> (opt_prop b ''role'' = JStr ''user'' \<and> role upd = Some ''user'')
   \<or> (opt_prop b ''role'' = JStr ''admin'' \<and> role upd = Some ''admin'')"
  using parse_role_cases [of "opt_prop b ''role''"]
  by (cases b) (auto simp: updateUserSchema_def Let_def given_def split: if_splits)

lemma updateUser_rejects:
  assumes r: "opt_prop (body req) ''role'' \<noteq> JUndefined"
    and a: "opt_prop (user req) ''role'' \<noteq> JStr ''admin''"
  shows "\<exists>b. updateUser E db req =
     (db, [Respond (if isl (userIdSchema (params req))
                       \<or> isl (updateUserSchema (isEmail E) (body req))
                    then 400 else if truthy (user req) then 403 else 401) b])"
proof (cases "userIdSchema (params req)")
  case (Inl issues)
  then show ?thesis by (simp add: updateUser_def validation_failed_def)
next
  case i: (Inr i)
  show ?thesis
  proof (cases "updateUserSchema (isEmail E) (body req)")
    case (Inl issues)
    with i show ?thesis by (simp add: updateUser_def validation_failed_def)
  next
    case (Inr upd)
    from updateUserSchema_role [OF Inr] r have "role upd \<noteq> None" by auto
    with i Inr a show ?thesis by (simp add: updateUser_def Let_def)
  qed
qed

text \<open>
  C8. The list of all users is served to anyone who is admitted. The route \<open>GET /\<close> of the
  router has no guard and its handler is \<open>fetchAllUsers\<close>; what the route does is the same
  for any two requests (so for an anonymous and an authenticated one, whatever the role);
  and when the database answers, it is the response 200 with the public view of every
  row and their count.
\<close>

theorem C8_user_list_needs_no_principal:
  "find (\<lambda>r. verb r = ''GET'' \<and> pattern r = ''/'') router =
     Some \<lparr>verb = ''GET'', pattern = ''/'', guards = [], handler = FetchAllUsers\<rparr>
   \<and> user_routes ''GET'' ''/'' E db req1 = user_routes ''GET'' ''/'' E' db req2
   \<and> (fault db = None \<longrightarrow>
        user_routes ''GET'' ''/'' E db req1 =
          (db, [Log Info ''Getting users...'' [] None, Db Select,
                Respond 200 (JObj [(''message'', JStr ''Successfully retrieved users''),
                                   (''users'', JArr (map public_view (rows db))),
                                   (''count'', JNum (int (length (rows db))))])]))"
  by (simp add: user_routes_def find_get_root run_handler_def fetchAllUsers_ok)
     (simp add: fetchAllUsers_def)

theorem C8_user_list_needs_no_principal_witness:
  "fault sample_db = None
   \<and> user_routes ''GET'' ''/'' sample_env sample_db sample_request =
       user_routes ''GET'' ''/'' sample_env sample_db (sample_request\<lparr>user := principal 1 ''admin''\<rparr>)
   \<and> user_routes ''GET'' ''/'' sample_env sample_db sample_request =
       (sample_db,
        [Log Info ''Getting users...'' [] None, Db Select,
         Respond 200 (JObj [(''message'', JStr ''Successfully retrieved users''),
                            (''users'', JArr (map public_view (rows sample_db))),
                            (''count'', JNum 2)])])"
proof -
  have f: "fault sample_db = None" by (simp add: sample_db_def)
  have n: "int (length (rows sample_db)) = 2" by (simp add: sample_db_def)
  note c = C8_user_list_needs_no_principal
             [of sample_env sample_db sample_request sample_env
                 "sample_request\<lparr>user := principal 1 ''admin''\<rparr>"]
  from c have same: "user_routes ''GET'' ''/'' sample_env sample_db sample_request =
      user_routes ''GET'' ''/'' sample_env sample_db (sample_request\<lparr>user := principal 1 ''admin''\<rparr>)"
    by (rule conjunct2 [THEN conjunct1])
  from c f have "user_routes ''GET'' ''/'' sample_env sample_db sample_request =
      (sample_db,
       [Log Info ''Getting users...'' [] None, Db Select,
        Respond 200 (JObj [(''message'', JStr ''Successfully retrieved users''),
                           (''users'', JArr (map public_view (rows sample_db))),
                           (''count'', JNum (int (length (rows sample_db))))])])"
    by (rule conjunct2 [THEN conjunct2, THEN mp])
  with n have "user_routes ''GET'' ''/'' sample_env sample_db sample_request =
      (sample_db,
       [Log Info ''Getting users...'' [] None, Db Select,
        Respond 200 (JObj [(''message'', JStr ''Successfully retrieved users''),
                           (''users'', JArr (map public_view (rows sample_db))),
                           (''count'', JNum 2)])])"
    by simp
  with f same show ?thesis by (intro conjI)
qed

text \<open>
  C9. No user service returns a stored password. Whatever \<open>getAllUsers\<close>,
  \<open>getUserById\<close>, \<open>updateUser\<close> and \<open>deleteUser\<close> return is the public view of rows of the
  table (or \<open>null\<close> for a user that is not found); the public view has exactly the keys
  \<open>id\<close>, \<open>email\<close>, \<open>name\<close>, \<open>role\<close>, \<open>created_at\<close>, \<open>updated_at\<close>; and everything a user
  endpoint sends or logs stays the same when every stored password is replaced.
\<close>

theorem C9_password_is_never_returned:
  "(\<forall>db' tr v. getAllUsers db = (db', tr, Inr v) \<longrightarrow> v = JArr (map public_view (rows db)))
   \<and> (\<forall>db' tr v. getUserByIdService i db = (db', tr, Inr v) \<longrightarrow>
         v = JNull \<or> (\<exists>u\<in>set (rows db). users_id u = i \<and> v = public_view u))
   \<and> (\<forall>db' tr v. updateUserService t i upd db = (db', tr, Inr v) \<longrightarrow>
         (\<exists>u\<in>set (rows db'). users_id u = i \<and> v = public_view u))
   \<and> (\<forall>db' tr v. deleteUserService i db = (db', tr, Inr v) \<longrightarrow>
         (\<exists>u\<in>set (rows db). users_id u = i \<and> v = public_view u))
   \<and> keys (public_view u) = [''id'', ''email'', ''name'', ''role'', ''created_at'', ''updated_at'']
   \<and> snd (user_routes vb p E (scrub x db) req) = snd (user_routes vb p E db req)"
proof -
  have "snd (user_routes vb p E (scrub x db) req) = snd (user_routes vb p E db req)"
    by (simp add: scrub_user_routes split: prod.splits)
  moreover have "\<forall>db' tr v. getAllUsers db = (db', tr, Inr v) \<longrightarrow>
      v = JArr (map public_view (rows db))"
    using getAllUsers_Inr by blast
  moreover have "\<forall>db' tr v. getUserByIdService i db = (db', tr, Inr v) \<longrightarrow>
      v = JNull \<or> (\<exists>u\<in>set (rows db). users_id u = i \<and> v = public_view u)"
    using getUserByIdService_Inr by blast
  moreover have "\<forall>db' tr v. updateUserService t i upd db = (db', tr, Inr v) \<longrightarrow>
      (\<exists>u\<in>set (rows db'). users_id u = i \<and> v = public_view u)"
    using updateUserService_Inr by blast
  moreover have "\<forall>db' tr v. deleteUserService i db = (db', tr, Inr v) \<longrightarrow>
      (\<exists>u\<in>set (rows db). users_id u = i \<and> v = public_view u)"
    using deleteUserService_Inr by blast
  ultimately show ?thesis
    using keys_public_view [of u] by (intro conjI)
qed

theorem C9_password_is_never_returned_witness:
  "getAllUsers sample_db = (sample_db, [Db Select], Inr (JArr (map public_view (rows sample_db))))
   \<and> (\<exists>u. snd (snd (getUserByIdService 2 sample_db)) = Inr (public_view u)
          \<and> u \<in> set (rows sample_db) \<and> users_id u = 2)"
proof -
  have f: "fault sample_db = None" by (simp add: sample_db_def)
  obtain v where g: "getUserByIdService 2 sample_db = (sample_db, [Db Select], Inr v)"
    and v: "v \<noteq> JNull"
    by (simp add: getUserByIdService_def sample_db_def first_of_def js_or_def)
  from C9_password_is_never_returned [of sample_db 2, THEN conjunct2, THEN conjunct1] g
  have "v = JNull \<or> (\<exists>u\<in>set (rows sample_db). users_id u = 2 \<and> v = public_view u)"
    by blast
  with v g getAllUsers_ok [OF f] show ?thesis by auto
qed

text \<open>
  C10, as stated: an update whose body has a \<open>role\<close> field, from a principal who is not an
  admin, is answered 403. It is not always 403: with a route parameter that is not a
  number the answer is 400, and with no principal it is 401.
\<close>

theorem C10_rejection_is_not_always_403:
  "user_routes ''PUT'' ''/:id'' sample_env sample_db
     (sample_request\<lparr>params := [(''id'', ''abc'')], body := JObj [(''role'', JStr ''admin'')],
                     user := principal 2 ''user''\<rparr>) =
     (sample_db,
      [Next, Respond 400 (JObj [(''error'', JStr ''Validation failed''),
                                (''details'', JArr [JStr ''id''])])])
   \<and> user_routes ''PUT'' ''/:id'' sample_env sample_db
     (sample_request\<lparr>params := [(''id'', ''2'')], body := JObj [(''role'', JStr ''admin'')]\<rparr>) =
     (sample_db,
      [Respond 401 (JObj [(''error'', JStr ''Unauthorized''),
                          (''message'', JStr ''Authentication required'')])])"
  by (simp add: put_route sample_request_def principal_def updateUser_def userIdSchema_def
      is_digit_def validation_failed_def sample_env_def)

text \<open>
  C10, amended. An update whose body has a \<open>role\<close> field, from a principal who is not an
  admin, is always rejected, with no statement sent to the database and the database as
  it was: the controller answers 400 when the id or the body is not valid, else 401 when
  there is no principal, else 403; through the route the guard comes first, and the
  answer is one of 400, 401 and 403. The body schema accepts no role but \<open>user\<close> and
  \<open>admin\<close>.
\<close>

theorem C10_non_admin_role_change_is_rejected:
  assumes "opt_prop (body req) ''role'' \<noteq> JUndefined"
    and "opt_prop (user req) ''role'' \<noteq> JStr ''admin''"
  shows "(\<exists>b. updateUser E db req =
            (db, [Respond (if isl (userIdSchema (params req))
                              \<or> isl (updateUserSchema (isEmail E) (body req))
                           then 400 else if truthy (user req) then 403 else 401) b]))
       \<and> (\<exists>tr s b. user_routes ''PUT'' ''/:id'' E db req = (db, tr @ [Respond s b])
             \<and> (tr = [] \<or> tr = [Next]) \<and> (s = 400 \<or> s = 401 \<or> s = 403))
       \<and> (\<forall>ie b upd. updateUserSchema ie b = Inr upd \<longrightarrow>
             (opt_prop b ''role'' = JUndefined \<and> role upd = None)
           \<or> (opt_prop b ''role'' = JStr ''user'' \<and> role upd = Some ''user'')
           \<or> (opt_prop b ''role'' = JStr ''admin'' \<and> role upd = Some ''admin''))"
proof -
  from updateUser_rejects [OF assms, of E db]
  obtain b where u: "updateUser E db req =
      (db, [Respond (if isl (userIdSchema (params req))
                        \<or> isl (updateUserSchema (isEmail E) (body req))
                     then 400 else if truthy (user req) then 403 else 401) b])"
    by blast
  have "\<exists>tr s b. user_routes ''PUT'' ''/:id'' E db req = (db, tr @ [Respond s b])
          \<and> (tr = [] \<or> tr = [Next]) \<and> (s = 400 \<or> s = 401 \<or> s = 403)"
  proof (cases "truthy (user req)")
    case True
    with u have "user_routes ''PUT'' ''/:id'' E db req =
        (db, [Next] @ [Respond (if isl (userIdSchema (params req))
                        \<or> isl (updateUserSchema (isEmail E) (body req))
                     then 400 else 403) b])"
      by (simp add: put_route)
    moreover have "(if isl (userIdSchema (params req))
                        \<or> isl (updateUserSchema (isEmail E) (body req))
                     then 400 else 403) \<in> {400, 401, 403::nat}"
      by simp
    ultimately show ?thesis by blast
  next
    case False
    then have "user_routes ''PUT'' ''/:id'' E db req =
        (db, [] @ [Respond 401 (JObj [(''error'', JStr ''Unauthorized''),
                                    (''message'', JStr ''Authentication required'')])])"
      by (simp add: put_route)
    then show ?thesis by blast
  qed
  with u updateUserSchema_role show ?thesis by blast
qed

theorem C10_non_admin_role_change_is_rejected_witness:
  "opt_prop (JObj [(''role'', JStr ''admin'')]) ''role'' \<noteq> JUndefined
   \<and> opt_prop (principal 2 ''user'') ''role'' \<noteq> JStr ''admin''
   \<and> (\<exists>b. updateUser sample_env sample_db
              (sample_request\<lparr>params := [(''id'', ''2'')],
                              body := JObj [(''role'', JStr ''admin'')],
                              user := principal 2 ''user''\<rparr>) =
            (sample_db, [Respond 403 b]))"
proof -
  let ?req = "sample_request\<lparr>params := [(''id'', ''2'')],
                             body := JObj [(''role'', JStr ''admin'')],
                             user := principal 2 ''user''\<rparr>"
  have r: "opt_prop (body ?req) ''role'' \<noteq> JUndefined" by (simp add: opt_prop_def)
  have a: "opt_prop (user ?req) ''role'' \<noteq> JStr ''admin''"
    by (simp add: opt_prop_def principal_def)
  have t: "truthy (user ?req)" by (simp add: principal_def)
  have i: "\<not> isl (userIdSchema (params ?req))"
    by (simp add: userIdSchema_def is_digit_def)
  have b: "\<not> isl (updateUserSchema (isEmail sample_env) (body ?req))"
    by (simp add: updateUserSchema_def opt_prop_def parse_name_def parse_email_def
        parse_role_def)
  from C10_non_admin_role_change_is_rejected [OF r a, of sample_env sample_db, THEN conjunct1]
    t i b
  have "\<exists>b. updateUser sample_env sample_db ?req = (sample_db, [Respond 403 b])"
    by simp
  with r a show ?thesis by simp
qed

end
